theory Spec2Isabelle
  imports Main "HOL-Library.Word"
begin

unbundle bit_operations_syntax

section \<open>Data model of package zlog\<close>

text \<open>
  Go's \<open>int\<close> is modelled as \<open>int\<close> where the code only compares and stores it
  (levels, output formats), and as \<open>64 word\<close> where it works on bits (the open flags)
  or wraps (program counters).  Go strings are byte strings: \<open>string\<close>.
\<close>

subsection \<open>Options and output formats (zlog.go, lines 67--98)\<close>

text \<open>\<open>LogOutputFormat\<close> is an alias of \<open>int\<close>: every integer is a value of it.\<close>

type_synonym LogOutputFormat = int

definition FormatColor :: LogOutputFormat where "FormatColor = 0"
definition FormatBW :: LogOutputFormat where "FormatBW = 1"
definition FormatJson :: LogOutputFormat where "FormatJson = 2"
definition FormatUnicode :: LogOutputFormat where "FormatUnicode = 3"

record Options =
  Level :: int
  TimeFormat :: string
  Format :: LogOutputFormat
  Overwrite :: bool

subsection \<open>Colour control sequences (lines 100--134)\<close>

definition ESC :: char where "ESC = CHR 0x1B"

definition intro :: string where "intro = ESC # ''[38;5;''"
definition ResetColor :: string where "ResetColor = ESC # ''[0m''"
definition Yellow :: string where "Yellow = intro @ ''226m''"
definition Orange :: string where "Orange = intro @ ''208m''"
definition Gray :: string where "Gray = intro @ ''246m''"
definition Green :: string where "Green = intro @ ''10m''"
definition Red :: string where "Red = intro @ ''196m''"
definition Cyan :: string where "Cyan = intro @ ''45m''"
definition Magenta :: string where "Magenta = intro @ ''207m''"
definition Blue :: string where "Blue = intro @ ''33m''"

definition Colorize :: "string \<Rightarrow> string \<Rightarrow> string" where
  "Colorize colorcontrolsequence text = colorcontrolsequence @ text @ ResetColor"

text \<open>A byte string carries a colour escape sequence when the ESC byte occurs in it.\<close>

definition has_escape :: "string \<Rightarrow> bool" where
  "has_escape s = (ESC \<in> set s)"

subsection \<open>Values of type \<open>interface{}\<close> handed to a formatter\<close>

text \<open>
  A formatter receives \<open>nil\<close>, a string, or a value of another dynamic type.  For the
  last the model carries what package fmt makes of it: its rendering under the verb
  \<open>%s\<close> and its rendering by \<open>fmt.Sprint\<close>.
\<close>

datatype iface = INil | IString string | IOther string string

fun Sprintf_s :: "iface \<Rightarrow> string" where
  "Sprintf_s INil = ''%!s(<nil>)''"
| "Sprintf_s (IString s) = s"
| "Sprintf_s (IOther s v) = s"

fun Sprint :: "iface \<Rightarrow> string" where
  "Sprint INil = ''<nil>''"
| "Sprint (IString s) = s"
| "Sprint (IOther s v) = v"

text \<open>
  Standard output is a list of the calls made to \<open>fmt.Printf\<close>: the format string and
  its one string argument.
\<close>

datatype stdout_event = Printf string string

definition unexpected_level :: "string \<Rightarrow> stdout_event" where
  "unexpected_level ll = Printf (''ups, unexpeced level %q'' @ [CHR 0x0A]) ll"

subsection \<open>Functions of the Go library\<close>

text \<open>\<open>path.Base\<close> and \<open>strconv.Itoa\<close> of the Go library.\<close>

definition path_Base :: "string \<Rightarrow> string" where
  "path_Base p =
     (if p = [] then ''.''
      else
        (let p1 = rev (dropWhile (\<lambda>c. c = CHR ''/'') (rev p));
             p2 = rev (takeWhile (\<lambda>c. c \<noteq> CHR ''/'') (rev p1))
         in if p2 = [] then ''/'' else p2))"

fun nat_digits :: "nat \<Rightarrow> string" where
  "nat_digits n =
     (if n < 10 then [''0123456789'' ! n]
      else nat_digits (n div 10) @ [''0123456789'' ! (n mod 10)])"

definition Itoa :: "int \<Rightarrow> string" where
  "Itoa n = (if n < 0 then CHR ''-'' # nat_digits (nat (- n)) else nat_digits (nat n))"

section \<open>Level-label formatters (lines 152--261)\<close>

text \<open>
  Each formatter returns its label and what it printed.  \<open>upper\<close> stands for
  \<open>strings.ToUpper\<close> of the Go library.  The glyphs are their UTF-8 bytes.
\<close>

definition glyph_trace :: string where
  "glyph_trace = [CHR 0xF0, CHR 0x9F, CHR 0x94, CHR 0xB9]"
definition glyph_debug :: string where
  "glyph_debug = [CHR 0xF0, CHR 0x9F, CHR 0x94, CHR 0xB7]"
definition glyph_info :: string where
  "glyph_info = [CHR 0xF0, CHR 0x9F, CHR 0x9F, CHR 0xA2]"
definition glyph_warn :: string where
  "glyph_warn = [CHR 0xF0, CHR 0x9F, CHR 0x94, CHR 0xB6]"
definition glyph_cross :: string where
  "glyph_cross = [CHR 0xE2, CHR 0x9D, CHR 0x8C]"

fun formatLevelUnicode :: "(string \<Rightarrow> string) \<Rightarrow> iface \<Rightarrow> string \<times> stdout_event list" where
  "formatLevelUnicode upper (IString ll) =
     (if ll = ''trace'' then (glyph_trace, [])
      else if ll = ''debug'' then (glyph_debug, [])
      else if ll = ''info'' then (glyph_info, [])
      else if ll = ''warn'' then (glyph_warn, [])
      else if ll = ''error'' then (glyph_cross, [])
      else if ll = ''fatal'' then (glyph_cross, [])
      else if ll = ''panic'' then (glyph_cross, [])
      else if ll = ''log'' then (''LOG'', [])
      else if ll = '''' then (''nolevel'', [])
      else (upper (Sprintf_s (IString ll)), [unexpected_level ll]))"
| "formatLevelUnicode upper INil = ('''', [])"
| "formatLevelUnicode upper (IOther s v) = (upper (Sprintf_s (IOther s v)), [])"

fun formatLevelBW :: "(string \<Rightarrow> string) \<Rightarrow> iface \<Rightarrow> string \<times> stdout_event list" where
  "formatLevelBW upper (IString ll) =
     (if ll = ''trace'' then (''TRC'', [])
      else if ll = ''debug'' then (''DBG'', [])
      else if ll = ''info'' then (''INF'', [])
      else if ll = ''warn'' then (''WRN'', [])
      else if ll = ''error'' then (''ERR'', [])
      else if ll = ''fatal'' then (''FTL'', [])
      else if ll = ''panic'' then (''PNC'', [])
      else if ll = ''log'' then (''LOG'', [])
      else if ll = '''' then (''nolevel'', [])
      else (upper (Sprintf_s (IString ll)), [unexpected_level ll]))"
| "formatLevelBW upper INil = ('''', [])"
| "formatLevelBW upper (IOther s v) = (upper (Sprintf_s (IOther s v)), [])"

text \<open>
  \<open>formatLevelColor\<close> reads the global \<open>SupportColors\<close> each time it is called:
  \<open>colors\<close> is its value at the call.
\<close>

fun formatLevelColor :: "bool \<Rightarrow> (string \<Rightarrow> string) \<Rightarrow> iface \<Rightarrow> string \<times> stdout_event list" where
  "formatLevelColor colors upper i =
     (if \<not> colors then formatLevelBW upper i
      else (case i of
          IString ll \<Rightarrow>
            (if ll = ''trace'' then (Gray @ ''TRC'' @ ResetColor, [])
             else if ll = ''debug'' then (Gray @ ''DBG'' @ ResetColor, [])
             else if ll = ''info'' then (Green @ ''INF'' @ ResetColor, [])
             else if ll = ''warn'' then (Orange @ ''WRN'' @ ResetColor, [])
             else if ll = ''error'' then (Red @ ''ERR'' @ ResetColor, [])
             else if ll = ''fatal'' then (Red @ ''FTL'' @ ResetColor, [])
             else if ll = ''panic'' then (Red @ ''PNC'' @ ResetColor, [])
             else if ll = ''log'' then (''LOG'', [])
             else if ll = '''' then (''nolevel'', [])
             else (upper (Sprintf_s i), [unexpected_level ll]))
        | INil \<Rightarrow> ('''', [])
        | IOther s v \<Rightarrow> (upper (Sprintf_s i), [])))"

text \<open>
  The formatter functions installed in a console writer, as data: a Go function value
  of this package is one of these three.
\<close>

datatype LevelFormatter = LevelBW | LevelUnicode | LevelColor

fun run_LevelFormatter ::
  "LevelFormatter \<Rightarrow> bool \<Rightarrow> (string \<Rightarrow> string) \<Rightarrow> iface \<Rightarrow> string \<times> stdout_event list" where
  "run_LevelFormatter LevelBW colors upper i = formatLevelBW upper i"
| "run_LevelFormatter LevelUnicode colors upper i = formatLevelUnicode upper i"
| "run_LevelFormatter LevelColor colors upper i = formatLevelColor colors upper i"

definition getFormatter :: "LogOutputFormat \<Rightarrow> LevelFormatter" where
  "getFormatter format =
     (if format = FormatBW then LevelBW
      else if format = FormatUnicode then LevelUnicode
      else if format = FormatColor then LevelColor
      else LevelBW)"

section \<open>The console writer and the global state\<close>

subsection \<open>What the package uses of zerolog\<close>

text \<open>zerolog's levels with their numeric values: a logger emits an event whose level
  is at least the logger's own.\<close>

datatype zerolog_Level =
  DebugLevel | InfoLevel | WarnLevel | ErrorLevel | FatalLevel | PanicLevel
  | NoLevel | Disabled | TraceLevel

fun level_value :: "zerolog_Level \<Rightarrow> int" where
  "level_value DebugLevel = 0"
| "level_value InfoLevel = 1"
| "level_value WarnLevel = 2"
| "level_value ErrorLevel = 3"
| "level_value FatalLevel = 4"
| "level_value PanicLevel = 5"
| "level_value NoLevel = 6"
| "level_value Disabled = 7"
| "level_value TraceLevel = - 1"

text \<open>A file descriptor remembers the name and the flag word it was opened with.\<close>

record fd =
  fd_name :: string
  fd_flag :: "64 word"

datatype Out = Stderr | File fd | Buffer

text \<open>
  The closures that \<open>zconsoleWriter\<close> installs, as data.  The timestamp closures
  read the clock and are only named; the field closures are run by the functions below.
\<close>

datatype TimestampFormatter = TsRelativeSeconds | TsEmpty | TsDefault | TsHighres

datatype FieldNameFormatter = FieldNameCyan | FieldNamePlain

datatype ErrFieldNameFormatter = ErrFieldNameRed | ErrFieldNamePlain

datatype ErrFieldValueFormatter = ErrFieldValueSprint

fun run_FieldNameFormatter :: "FieldNameFormatter \<Rightarrow> iface \<Rightarrow> string" where
  "run_FieldNameFormatter FieldNameCyan i = Cyan @ Sprint i @ ''='' @ ResetColor"
| "run_FieldNameFormatter FieldNamePlain i = Sprint i @ ''=''"

fun run_ErrFieldNameFormatter :: "ErrFieldNameFormatter \<Rightarrow> iface \<Rightarrow> string" where
  "run_ErrFieldNameFormatter ErrFieldNameRed i = Red @ ''error='' @ ResetColor"
| "run_ErrFieldNameFormatter ErrFieldNamePlain i = ''error=''"

fun run_ErrFieldValueFormatter :: "ErrFieldValueFormatter \<Rightarrow> iface \<Rightarrow> string" where
  "run_ErrFieldValueFormatter ErrFieldValueSprint i = Sprint i"

text \<open>
  Running a timestamp closure.  The clock is given: \<open>now layout\<close> is
  \<open>time.Now().Format(layout)\<close> and \<open>since\<close> is \<open>time.Since(zerologStartup)/time.Second\<close>.
  \<open>Sprintf_04d\<close> is the verb \<open>%04d\<close>.
\<close>

definition Sprintf_04d :: "int \<Rightarrow> string" where
  "Sprintf_04d n =
     (if n < 0
      then CHR ''-'' # replicate (3 - length (nat_digits (nat (- n)))) CHR ''0'' @ nat_digits (nat (- n))
      else replicate (4 - length (nat_digits (nat n))) CHR ''0'' @ nat_digits (nat n))"

fun run_TimestampFormatter ::
  "TimestampFormatter \<Rightarrow> (string \<Rightarrow> string) \<Rightarrow> int \<Rightarrow> iface \<Rightarrow> string" where
  "run_TimestampFormatter TsRelativeSeconds now since i = ''['' @ Sprintf_04d since @ '']''"
| "run_TimestampFormatter TsEmpty now since i = []"
| "run_TimestampFormatter TsDefault now since i = now ''2006-01-02 15:04:05''"
| "run_TimestampFormatter TsHighres now since i = now ''2006-01-02 15:04:05.000''"

text \<open>The fields of \<open>zerolog.ConsoleWriter\<close> that the package sets; \<open>None\<close> is a
  nil function, which leaves zerolog's default in place.\<close>

record ConsoleWriter =
  cw_Out :: Out
  cw_NoColor :: bool
  cw_TimeFormat :: string
  cw_FormatTimestamp :: "TimestampFormatter option"
  cw_FormatLevel :: "LevelFormatter option"
  cw_FormatFieldName :: "FieldNameFormatter option"
  cw_FormatErrFieldName :: "ErrFieldNameFormatter option"
  cw_FormatErrFieldValue :: "ErrFieldValueFormatter option"

text \<open>A logger: where it writes, its minimum level, the fields of its context and
  whether the context adds a timestamp.\<close>

datatype Sink = ConsoleSink ConsoleWriter | RawSink Out

datatype LevelWriter = Single Sink | Multi "Sink list"

datatype field_value = FStr string | FInt int

record Logger =
  lg_w :: LevelWriter
  lg_level :: zerolog_Level
  lg_context :: "(string \<times> field_value) list"
  lg_timestamp :: bool

definition zerolog_New :: "Sink \<Rightarrow> Logger" where
  "zerolog_New w = \<lparr>lg_w = Single w, lg_level = TraceLevel, lg_context = [], lg_timestamp = False\<rparr>"

definition zerolog_TimeFormatUnix :: string where
  "zerolog_TimeFormatUnix = []"

datatype StackMarshaler = Marshal_ZMarshalStack

subsection \<open>Package-level variables\<close>

record globals =
  SupportColors :: bool
  ZlogDropStack :: int
  zlogOptions :: Options
  loglevel :: int
  log_Logger :: Logger
  zerolog_ErrorStackMarshaler :: "StackMarshaler option"
  zerolog_TimeFieldFormat :: string
  zerolog_TimestampFieldName :: string
  zerolog_LevelFieldName :: string
  zerolog_MessageFieldName :: string

text \<open>
  The state when \<open>main\<close> starts: the variables of this package hold their initialisers
  (zero values where there is none), \<open>colors\<close> is what \<open>init\<close> left in
  \<open>SupportColors\<close>, and zerolog's variables hold zerolog's defaults.
\<close>

definition zero_Options :: Options where
  "zero_Options = \<lparr>Level = 0, TimeFormat = [], Format = 0, Overwrite = False\<rparr>"

definition initial_globals :: "bool \<Rightarrow> globals" where
  "initial_globals colors =
     \<lparr>SupportColors = colors, ZlogDropStack = 8, zlogOptions = zero_Options, loglevel = 0,
      log_Logger = (zerolog_New (RawSink Stderr))\<lparr>lg_timestamp := True\<rparr>,
      zerolog_ErrorStackMarshaler = None,
      zerolog_TimeFieldFormat = ''2006-01-02T15:04:05Z07:00'',
      zerolog_TimestampFieldName = ''time'',
      zerolog_LevelFieldName = ''level'',
      zerolog_MessageFieldName = ''message''\<rparr>"

subsection \<open>\<open>zconsoleWriter\<close> (lines 304--366)\<close>

definition zconsoleWriter :: "Options \<Rightarrow> globals \<Rightarrow> ConsoleWriter \<times> globals" where
  "zconsoleWriter opts g =
     (let g1 = g\<lparr>zlogOptions := opts\<rparr>;
          (timestampFormat, opts1) =
            (if TimeFormat opts = ''s''
               then (Some TsRelativeSeconds, opts\<lparr>TimeFormat := zerolog_TimeFormatUnix\<rparr>)
             else if TimeFormat opts = ''none'' then (Some TsEmpty, opts)
             else if TimeFormat opts = [] \<or> TimeFormat opts = ''default''
               then (Some TsDefault, opts)
             else if TimeFormat opts = ''highres''
               then (Some TsHighres, opts\<lparr>TimeFormat := ''2006-01-02 15:04:05.000''\<rparr>)
             else (None, opts));
          g2 = g1\<lparr>zerolog_ErrorStackMarshaler := Some Marshal_ZMarshalStack,
                  zerolog_TimeFieldFormat := TimeFormat opts1,
                  zerolog_TimestampFieldName := ''_zts'',
                  zerolog_LevelFieldName := ''_zl'',
                  zerolog_MessageFieldName := ''_zm''\<rparr>;
          output = \<lparr>cw_Out = Stderr, cw_NoColor = False, cw_TimeFormat = TimeFormat opts1,
                    cw_FormatTimestamp = None, cw_FormatLevel = None,
                    cw_FormatFieldName = None, cw_FormatErrFieldName = None,
                    cw_FormatErrFieldValue = None\<rparr>;
          output1 = output\<lparr>cw_FormatLevel := Some (getFormatter (Format opts1))\<rparr>;
          output2 =
            (if (Format opts1 = FormatColor \<or> Format opts1 = FormatUnicode) \<and> SupportColors g2
             then output1\<lparr>cw_FormatFieldName := Some FieldNameCyan,
                          cw_FormatErrFieldName := Some ErrFieldNameRed,
                          cw_FormatErrFieldValue := Some ErrFieldValueSprint\<rparr>
             else output1\<lparr>cw_FormatFieldName := Some FieldNamePlain,
                          cw_FormatErrFieldName := Some ErrFieldNamePlain,
                          cw_FormatErrFieldValue := Some ErrFieldValueSprint\<rparr>);
          output3 =
            (case timestampFormat of
               None \<Rightarrow> output2
             | Some f \<Rightarrow> output2\<lparr>cw_FormatTimestamp := Some f\<rparr>)
      in (output3, g2))"

subsection \<open>\<open>setlevel\<close>, \<open>New\<close>, \<open>InitL\<close>, \<open>Init\<close>, \<open>SetLevel\<close> (lines 58--64, 372--411)\<close>

definition setlevel :: "Logger \<Rightarrow> int \<Rightarrow> globals \<Rightarrow> Logger \<times> globals" where
  "setlevel logger level g =
     (let g1 = g\<lparr>loglevel := level\<rparr>;
          level1 = (if level < - 3 then - 3 else level)
      in (if level1 = - 3 then logger\<lparr>lg_level := FatalLevel\<rparr>
          else if level1 = - 2 then logger\<lparr>lg_level := ErrorLevel\<rparr>
          else if level1 = - 1 then logger\<lparr>lg_level := WarnLevel\<rparr>
          else if level1 = 0 then logger\<lparr>lg_level := InfoLevel\<rparr>
          else if level1 = 1 then logger\<lparr>lg_level := DebugLevel\<rparr>
          else logger\<lparr>lg_level := TraceLevel\<rparr>,
          g1))"

definition New :: "Options \<Rightarrow> globals \<Rightarrow> Logger \<times> globals" where
  "New opts g =
     (let (output, g1) = zconsoleWriter opts g;
          zlog = zerolog_New (ConsoleSink output);
          zlog1 = (if TimeFormat opts \<noteq> ''none'' then zlog\<lparr>lg_timestamp := True\<rparr> else zlog)
      in setlevel zlog1 (Level opts) g1)"

definition InitL :: "int \<Rightarrow> globals \<Rightarrow> globals" where
  "InitL level g =
     (let (l, g1) = New (zero_Options\<lparr>Level := level\<rparr>) g in g1\<lparr>log_Logger := l\<rparr>)"

definition Init :: "globals \<Rightarrow> globals" where
  "Init g = InitL 0 g"

definition SetLevel :: "int \<Rightarrow> globals \<Rightarrow> globals" where
  "SetLevel level g =
     (let (l, g1) = setlevel (log_Logger g) level g in g1\<lparr>log_Logger := l\<rparr>)"

text \<open>
  The table of the specification: level 0 is Info, positive levels go towards Trace,
  negative ones towards Fatal, and both ends are clamped.
\<close>

definition spec_threshold :: "int \<Rightarrow> zerolog_Level" where
  "spec_threshold L =
     (if L \<le> - 3 then FatalLevel
      else if L = - 2 then ErrorLevel
      else if L = - 1 then WarnLevel
      else if L = 0 then InfoLevel
      else if L = 1 then DebugLevel
      else TraceLevel)"

section \<open>\<open>Tee\<close> (lines 423--472)\<close>

text \<open>The open flags of package os, with the values of Go's syscall package on Linux
  (the same numbers are used on Windows).\<close>

definition O_WRONLY :: "64 word" where "O_WRONLY = 0x1"
definition O_CREATE :: "64 word" where "O_CREATE = 0x40"
definition O_TRUNC :: "64 word" where "O_TRUNC = 0x200"
definition O_APPEND :: "64 word" where "O_APPEND = 0x400"

text \<open>Lines 424--438: the options in force and the flag word handed to \<open>os.OpenFile\<close>.\<close>

definition Tee_options :: "Options list \<Rightarrow> Options" where
  "Tee_options options =
     (case options of
        [] \<Rightarrow> zero_Options\<lparr>Overwrite := False, Format := FormatBW\<rparr>
      | opts # _ \<Rightarrow> opts)"

definition Tee_flag :: "Options \<Rightarrow> 64 word" where
  "Tee_flag opts =
     (let flag = O_CREATE OR O_WRONLY
      in if Overwrite opts then flag OR O_APPEND else flag OR O_TRUNC)"

text \<open>
  \<open>can_open\<close> is the answer of the operating system to \<open>os.OpenFile\<close>.  When the file
  cannot be opened, \<open>log.Fatal\<close> ends the process.
\<close>

datatype tee_error = FatalExit

definition Tee ::
  "(string \<Rightarrow> 64 word \<Rightarrow> bool) \<Rightarrow> string \<Rightarrow> Options list \<Rightarrow> globals \<Rightarrow> tee_error + Logger \<times> globals" where
  "Tee can_open fname options g =
     (let opts = Tee_options options;
          flag = Tee_flag opts
      in if \<not> can_open fname flag then Inl FatalExit
         else
           (let fd = \<lparr>fd_name = fname, fd_flag = flag\<rparr>;
                (console, g1) = zconsoleWriter (zlogOptions g) g;
                (multi, g5) =
                  (if Format opts = FormatJson
                   then (Multi [ConsoleSink console, RawSink (File fd)], g1)
                   else
                     (let sc = SupportColors g1;
                          g2 = (if Format opts = FormatBW then g1\<lparr>SupportColors := False\<rparr> else g1);
                          (file, g3) = zconsoleWriter (zlogOptions g2) g2;
                          g4 = g3\<lparr>SupportColors := sc\<rparr>;
                          file1 = file\<lparr>cw_Out := File fd, cw_FormatLevel := Some LevelBW\<rparr>;
                          file2 = (if Format opts = FormatBW then file1\<lparr>cw_NoColor := True\<rparr> else file1)
                      in (Multi [ConsoleSink console, ConsoleSink file2], g4)));
                m = \<lparr>lg_w = multi, lg_level = TraceLevel, lg_context = [], lg_timestamp = True\<rparr>
            in Inr (setlevel m (loglevel g5) g5)))"

text \<open>The two sinks of the logger that \<open>Tee\<close> returns.\<close>

fun console_sink :: "Logger \<Rightarrow> Sink option" where
  "console_sink l = (case lg_w l of Multi (c # _) \<Rightarrow> Some c | _ \<Rightarrow> None)"

fun file_sink :: "Logger \<Rightarrow> Sink option" where
  "file_sink l = (case lg_w l of Multi (_ # f # _) \<Rightarrow> Some f | _ \<Rightarrow> None)"

fun sink_Out :: "Sink \<Rightarrow> Out" where
  "sink_Out (ConsoleSink w) = cw_Out w"
| "sink_Out (RawSink out) = out"

text \<open>
  A console writer is monochrome when none of the functions the package installed in it
  can put an escape sequence around a label or a field name: the level labels are the
  monochrome ones and the field names are plain.
\<close>

definition monochrome_writer :: "ConsoleWriter \<Rightarrow> bool" where
  "monochrome_writer w =
     (cw_FormatLevel w = Some LevelBW \<and> cw_FormatFieldName w = Some FieldNamePlain
      \<and> cw_FormatErrFieldName w = Some ErrFieldNamePlain)"

section \<open>\<open>ZMarshalStack\<close> (lines 266--302)\<close>

text \<open>
  A frame is a \<open>uintptr\<close>.  \<open>FileLine pc\<close> stands for the runtime's symbol table:
  \<open>None\<close> when \<open>runtime.FuncForPC\<close> returns nil, otherwise the file and line that
  \<open>fn.FileLine\<close> returns.  The loop runs over the frames with their index \<open>i\<close> and
  the buffer \<open>b\<close>.
\<close>

type_synonym Frame = "64 word"

fun stack_loop ::
  "(64 word \<Rightarrow> (string \<times> int) option) \<Rightarrow> int \<Rightarrow> nat \<Rightarrow> Frame list \<Rightarrow> string \<Rightarrow> string" where
  "stack_loop FileLine nlevels i [] b = b"
| "stack_loop FileLine nlevels i (frame # st) b =
     (if int i > nlevels then b
      else
        (let pc = frame - 1
         in case FileLine pc of
              None \<Rightarrow> ''Internal zerologformat.306: cannot get fn''
            | Some (file, line) \<Rightarrow>
                (let b1 = (if i > 0 then b @ '' | '' else b);
                     b2 = b1 @ path_Base file;
                     b3 = b2 @ '':'';
                     b4 = b3 @ Itoa line
                 in stack_loop FileLine nlevels (Suc i) st b4)))"

text \<open>The error is \<open>None\<close> when it has no \<open>StackTrace\<close> method, otherwise the frames
  that the method returns.  The result \<open>None\<close> is nil.\<close>

definition ZMarshalStack ::
  "(64 word \<Rightarrow> (string \<times> int) option) \<Rightarrow> globals \<Rightarrow> Frame list option \<Rightarrow> string option" where
  "ZMarshalStack FileLine g err =
     (case err of
        None \<Rightarrow> None
      | Some st \<Rightarrow>
          (let nlevels = int (length st);
               nlevels1 = (if nlevels > ZlogDropStack g then nlevels - ZlogDropStack g else nlevels)
           in Some (stack_loop FileLine nlevels1 0 st [])))"

text \<open>
  What the claim about the output says: each frame as \<open>basename:line\<close>, the frames
  joined by \<open>" | "\<close>.
\<close>

definition frame_text :: "(64 word \<Rightarrow> (string \<times> int) option) \<Rightarrow> Frame \<Rightarrow> string" where
  "frame_text FileLine frame =
     (case FileLine (frame - 1) of
        None \<Rightarrow> []
      | Some (file, line) \<Rightarrow> path_Base file @ '':'' @ Itoa line)"

fun join_bar :: "string list \<Rightarrow> string" where
  "join_bar [] = []"
| "join_bar [x] = x"
| "join_bar (x # y # xs) = x @ '' | '' @ join_bar (y # xs)"

section \<open>\<open>Error\<close> (lines 476--531)\<close>

record Error =
  Message :: string
  C :: Logger
  augment :: int

text \<open>
  \<open>write l g msg\<close> stands for zerolog: the bytes that \<open>l.Log().Msg(msg)\<close> leaves in
  the buffer of the logger \<open>l\<close>.  \<open>TrimSpace\<close> stands for \<open>strings.TrimSpace\<close>.
\<close>

definition Error_Error ::
  "(Logger \<Rightarrow> globals \<Rightarrow> string \<Rightarrow> string) \<Rightarrow> (string \<Rightarrow> string) \<Rightarrow> Error \<Rightarrow> globals \<Rightarrow> string \<times> globals" where
  "Error_Error write TrimSpace e g =
     (let (output, g1) = zconsoleWriter (zero_Options\<lparr>TimeFormat := ''none''\<rparr>) g;
          output1 = output\<lparr>cw_Out := Buffer\<rparr>;
          l = (C e)\<lparr>lg_w := Single (ConsoleSink output1)\<rparr>;
          buf = write l g1 (Message e)
      in (TrimSpace buf, g1))"

text \<open>The console writer through which \<open>Error\<close> formats the message.\<close>

definition Error_sink :: "globals \<Rightarrow> ConsoleWriter" where
  "Error_sink g = (fst (zconsoleWriter (zero_Options\<lparr>TimeFormat := ''none''\<rparr>) g))\<lparr>cw_Out := Buffer\<rparr>"

section \<open>Concrete inputs\<close>

text \<open>\<open>strings.ToUpper\<close> on strings of ASCII bytes: the letters a to z move to A to Z.\<close>

definition ascii_ToUpper :: "string \<Rightarrow> string" where
  "ascii_ToUpper s =
     map (\<lambda>c. if (97::nat) \<le> of_char c \<and> of_char c \<le> (122::nat)
              then char_of (of_char c - (32::nat)) else c) s"

text \<open>The seven severity tags of zerolog, and all the strings that the switch of a level
  formatter has a case for.\<close>

definition severity_tags :: "string list" where
  "severity_tags = [''trace'', ''debug'', ''info'', ''warn'', ''error'', ''fatal'', ''panic'']"

definition switch_cases :: "string list" where
  "switch_cases = severity_tags @ [''log'', [] ]"

text \<open>The number of the seven severities that a logger with minimum level \<open>l\<close> emits.\<close>

definition verbosity :: "zerolog_Level \<Rightarrow> nat" where
  "verbosity l =
     length (filter (\<lambda>s. level_value l \<le> level_value s)
       [TraceLevel, DebugLevel, InfoLevel, WarnLevel, ErrorLevel, FatalLevel, PanicLevel])"

definition always_open :: "string \<Rightarrow> 64 word \<Rightarrow> bool" where
  "always_open fname flag = True"

text \<open>A symbol table in which every program counter resolves, and a stack of ten
  frames.\<close>

definition demo_FileLine :: "64 word \<Rightarrow> (string \<times> int) option" where
  "demo_FileLine pc = Some (''/home/user/app/main.go'', 100 + uint pc)"

definition demo_frames :: "Frame list" where
  "demo_frames = [2, 3, 4, 5, 6, 7, 8, 9, 10, 11]"

text \<open>An error as \<open>NewError("Test Message").Int("n", 3)\<close> builds it from the global
  logger of the state \<open>g\<close>.\<close>

definition demo_Error :: "globals \<Rightarrow> Error" where
  "demo_Error g =
     \<lparr>Message = ''Test Message'',
      C = (log_Logger g)\<lparr>lg_context := lg_context (log_Logger g) @ [(''n'', FInt 3)]\<rparr>,
      augment = 0\<rparr>"

text \<open>Stand-ins for zerolog's writer and for \<open>strings.TrimSpace\<close> in concrete runs:
  the message alone, and the removal of leading and trailing blanks.\<close>

definition demo_write :: "Logger \<Rightarrow> globals \<Rightarrow> string \<Rightarrow> string" where
  "demo_write l g msg = msg @ [CHR 0x0A]"

definition demo_TrimSpace :: "string \<Rightarrow> string" where
  "demo_TrimSpace s =
     rev (dropWhile (\<lambda>c. c \<in> set [CHR '' '', CHR 0x09, CHR 0x0A, CHR 0x0D])
       (rev (dropWhile (\<lambda>c. c \<in> set [CHR '' '', CHR 0x09, CHR 0x0A, CHR 0x0D]) s)))"

section \<open>Facts about the building blocks\<close>

lemma setlevel_level: "lg_level (fst (setlevel logger L g)) = spec_threshold L"
  by (simp add: setlevel_def spec_threshold_def Let_def)

lemma setlevel_eq:
  "setlevel logger L g = (logger\<lparr>lg_level := spec_threshold L\<rparr>, g\<lparr>loglevel := L\<rparr>)"
  by (simp add: setlevel_def spec_threshold_def Let_def)

lemma verbosity_spec_threshold:
  "verbosity (spec_threshold L) = (if L \<le> - 3 then 2 else if 2 \<le> L then 7 else nat (L + 5))"
  by (simp add: verbosity_def spec_threshold_def)

lemma verbosity_spec_threshold_mono:
  "L \<le> L' \<Longrightarrow> verbosity (spec_threshold L) \<le> verbosity (spec_threshold L')"
  unfolding verbosity_spec_threshold by (auto split: if_splits)

lemma zconsoleWriter_globals:
  "snd (zconsoleWriter opts g) =
     g\<lparr>zlogOptions := opts,
       zerolog_ErrorStackMarshaler := Some Marshal_ZMarshalStack,
       zerolog_TimeFieldFormat :=
         (if TimeFormat opts = ''s'' then zerolog_TimeFormatUnix
          else if TimeFormat opts = ''highres'' then ''2006-01-02 15:04:05.000''
          else TimeFormat opts),
       zerolog_TimestampFieldName := ''_zts'',
       zerolog_LevelFieldName := ''_zl'',
       zerolog_MessageFieldName := ''_zm''\<rparr>"
  by (simp add: zconsoleWriter_def Let_def)

lemma zconsoleWriter_writer:
  "fst (zconsoleWriter opts g) =
     \<lparr>cw_Out = Stderr, cw_NoColor = False,
      cw_TimeFormat =
         (if TimeFormat opts = ''s'' then zerolog_TimeFormatUnix
          else if TimeFormat opts = ''highres'' then ''2006-01-02 15:04:05.000''
          else TimeFormat opts),
      cw_FormatTimestamp =
         (if TimeFormat opts = ''s'' then Some TsRelativeSeconds
          else if TimeFormat opts = ''none'' then Some TsEmpty
          else if TimeFormat opts = [] \<or> TimeFormat opts = ''default'' then Some TsDefault
          else if TimeFormat opts = ''highres'' then Some TsHighres
          else None),
      cw_FormatLevel = Some (getFormatter (Format opts)),
      cw_FormatFieldName =
         Some (if (Format opts = FormatColor \<or> Format opts = FormatUnicode) \<and> SupportColors g
               then FieldNameCyan else FieldNamePlain),
      cw_FormatErrFieldName =
         Some (if (Format opts = FormatColor \<or> Format opts = FormatUnicode) \<and> SupportColors g
               then ErrFieldNameRed else ErrFieldNamePlain),
      cw_FormatErrFieldValue = Some ErrFieldValueSprint\<rparr>"
  by (simp add: zconsoleWriter_def Let_def)

text \<open>The three ways in which \<open>Tee\<close> returns, and the one in which it does not.\<close>

lemma Tee_Inl:
  "\<not> can_open fname (Tee_flag (Tee_options options)) \<Longrightarrow>
   Tee can_open fname options g = Inl FatalExit"
  by (simp add: Tee_def Let_def)

lemma Tee_Json:
  "can_open fname (Tee_flag (Tee_options options)) \<Longrightarrow>
   Format (Tee_options options) = FormatJson \<Longrightarrow>
   Tee can_open fname options g =
     Inr (\<lparr>lg_w = Multi [ConsoleSink (fst (zconsoleWriter (zlogOptions g) g)),
                         RawSink (File \<lparr>fd_name = fname, fd_flag = Tee_flag (Tee_options options)\<rparr>)],
           lg_level = spec_threshold (loglevel g), lg_context = [], lg_timestamp = True\<rparr>,
          snd (zconsoleWriter (zlogOptions g) g))"
  by (simp add: Tee_def Let_def setlevel_eq zconsoleWriter_globals split_beta)

lemma Tee_BW:
  "can_open fname (Tee_flag (Tee_options options)) \<Longrightarrow>
   Format (Tee_options options) = FormatBW \<Longrightarrow>
   Tee can_open fname options g =
     Inr (\<lparr>lg_w = Multi [ConsoleSink (fst (zconsoleWriter (zlogOptions g) g)),
                         ConsoleSink ((fst (zconsoleWriter (zlogOptions g) (g\<lparr>SupportColors := False\<rparr>)))
                            \<lparr>cw_Out := File \<lparr>fd_name = fname, fd_flag = Tee_flag (Tee_options options)\<rparr>,
                             cw_FormatLevel := Some LevelBW, cw_NoColor := True\<rparr>)],
           lg_level = spec_threshold (loglevel g), lg_context = [], lg_timestamp = True\<rparr>,
          snd (zconsoleWriter (zlogOptions g) g))"
  by (simp add: Tee_def Let_def setlevel_eq zconsoleWriter_globals zconsoleWriter_writer split_beta
        FormatBW_def FormatJson_def)

lemma Tee_other:
  "can_open fname (Tee_flag (Tee_options options)) \<Longrightarrow>
   Format (Tee_options options) \<noteq> FormatBW \<Longrightarrow>
   Format (Tee_options options) \<noteq> FormatJson \<Longrightarrow>
   Tee can_open fname options g =
     Inr (\<lparr>lg_w = Multi [ConsoleSink (fst (zconsoleWriter (zlogOptions g) g)),
                         ConsoleSink ((fst (zconsoleWriter (zlogOptions g) g))
                            \<lparr>cw_Out := File \<lparr>fd_name = fname, fd_flag = Tee_flag (Tee_options options)\<rparr>,
                             cw_FormatLevel := Some LevelBW\<rparr>)],
           lg_level = spec_threshold (loglevel g), lg_context = [], lg_timestamp = True\<rparr>,
          snd (zconsoleWriter (zlogOptions g) g))"
  by (simp add: Tee_def Let_def setlevel_eq zconsoleWriter_globals zconsoleWriter_writer split_beta)

lemma Tee_flag_bits:
  "Tee_flag opts AND O_CREATE = O_CREATE
   \<and> (\<not> Overwrite opts \<longrightarrow> Tee_flag opts AND O_TRUNC = O_TRUNC \<and> Tee_flag opts AND O_APPEND = 0)
   \<and> (Overwrite opts \<longrightarrow> Tee_flag opts AND O_APPEND = O_APPEND \<and> Tee_flag opts AND O_TRUNC = 0)"
  by (simp add: Tee_flag_def O_CREATE_def O_WRONLY_def O_TRUNC_def O_APPEND_def Let_def)

lemma Tee_file_Out:
  assumes "Tee can_open fname options g = Inr (m, g')"
  shows "map_option sink_Out (file_sink m)
           = Some (File \<lparr>fd_name = fname, fd_flag = Tee_flag (Tee_options options)\<rparr>)"
proof -
  have op: "can_open fname (Tee_flag (Tee_options options))"
    using assms Tee_Inl [of can_open fname options g] by auto
  consider (json) "Format (Tee_options options) = FormatJson"
    | (bw) "Format (Tee_options options) = FormatBW"
    | (other) "Format (Tee_options options) \<noteq> FormatBW" "Format (Tee_options options) \<noteq> FormatJson"
    by blast
  then show ?thesis
  proof cases
    case json
    with op assms show ?thesis by (auto simp: Tee_Json)
  next
    case bw
    with op assms show ?thesis by (auto simp: Tee_BW)
  next
    case other
    with op assms show ?thesis by (auto simp: Tee_other)
  qed
qed

lemma New_eq:
  "New opts g =
     ((zerolog_New (ConsoleSink (fst (zconsoleWriter opts g))))
        \<lparr>lg_timestamp := (TimeFormat opts \<noteq> ''none''), lg_level := spec_threshold (Level opts)\<rparr>,
      (snd (zconsoleWriter opts g))\<lparr>loglevel := Level opts\<rparr>)"
  by (simp add: New_def Let_def split_beta setlevel_eq zerolog_New_def)

lemma InitL_globals:
  "SupportColors (InitL L g) = SupportColors g"
  "zlogOptions (InitL L g) = zero_Options\<lparr>Level := L\<rparr>"
  "loglevel (InitL L g) = L"
  by (simp_all add: InitL_def New_eq zconsoleWriter_globals)

lemma SetLevel_loglevel: "loglevel (SetLevel L g) = L"
  by (simp add: SetLevel_def split_beta setlevel_eq)

lemma Error_Error_eq:
  "Error_Error write TrimSpace e g =
     (TrimSpace (write ((C e)\<lparr>lg_w := Single (ConsoleSink (Error_sink g))\<rparr>)
                   (snd (zconsoleWriter (zero_Options\<lparr>TimeFormat := ''none''\<rparr>) g)) (Message e)),
      snd (zconsoleWriter (zero_Options\<lparr>TimeFormat := ''none''\<rparr>) g))"
  by (simp add: Error_Error_def Error_sink_def Let_def split_beta)

lemma Error_sink_eq:
  "Error_sink g =
     \<lparr>cw_Out = Buffer, cw_NoColor = False, cw_TimeFormat = ''none'',
      cw_FormatTimestamp = Some TsEmpty, cw_FormatLevel = Some LevelColor,
      cw_FormatFieldName = Some (if SupportColors g then FieldNameCyan else FieldNamePlain),
      cw_FormatErrFieldName = Some (if SupportColors g then ErrFieldNameRed else ErrFieldNamePlain),
      cw_FormatErrFieldValue = Some ErrFieldValueSprint\<rparr>"
  by (simp add: Error_sink_def zconsoleWriter_writer zero_Options_def getFormatter_def
        FormatColor_def FormatBW_def FormatUnicode_def)

lemma Tee_console_sink:
  assumes "can_open fname (Tee_flag (Tee_options options))"
  shows "\<exists>m g'. Tee can_open fname options g = Inr (m, g')
           \<and> console_sink m = Some (ConsoleSink (fst (zconsoleWriter (zlogOptions g) g)))
           \<and> lg_level m = spec_threshold (loglevel g)
           \<and> loglevel g' = loglevel g"
proof -
  consider (json) "Format (Tee_options options) = FormatJson"
    | (bw) "Format (Tee_options options) = FormatBW"
    | (other) "Format (Tee_options options) \<noteq> FormatBW" "Format (Tee_options options) \<noteq> FormatJson"
    by blast
  then show ?thesis
  proof cases
    case json
    with assms Tee_Json [of can_open fname options g] show ?thesis
      by (simp add: zconsoleWriter_globals)
  next
    case bw
    with assms Tee_BW [of can_open fname options g] show ?thesis
      by (simp add: zconsoleWriter_globals)
  next
    case other
    with assms Tee_other [of can_open fname options g] show ?thesis
      by (simp add: zconsoleWriter_globals)
  qed
qed

lemma join_bar_Cons:
  "join_bar (x # xs) = (if xs = [] then x else x @ '' | '' @ join_bar xs)"
  by (cases xs) simp_all

lemma stack_loop_all_resolved:
  assumes "\<forall>f \<in> set st. FileLine (f - 1) \<noteq> None"
  shows "stack_loop FileLine nlevels i st b =
     (if take (nat (nlevels + 1 - int i)) st = [] then b
      else (if i > 0 then b @ '' | '' else b)
             @ join_bar (map (frame_text FileLine) (take (nat (nlevels + 1 - int i)) st)))"
  using assms
proof (induction st arbitrary: i b)
  case Nil
  then show ?case by simp
next
  case (Cons frame st)
  show ?case
  proof (cases "int i > nlevels")
    case True
    then show ?thesis by simp
  next
    case False
    from Cons.prems obtain src ln where fl: "FileLine (frame - 1) = Some (src, ln)"
      by auto
    from False have n: "nat (nlevels + 1 - int i) = Suc (nat (nlevels + 1 - int (Suc i)))"
      by simp
    have ih: "stack_loop FileLine nlevels (Suc i) st b' =
       (if take (nat (nlevels + 1 - int (Suc i))) st = [] then b'
        else b' @ '' | ''
               @ join_bar (map (frame_text FileLine) (take (nat (nlevels + 1 - int (Suc i))) st)))"
      for b'
      using Cons.IH [of "Suc i" b'] Cons.prems by simp
    show ?thesis
      unfolding n
      using False fl
      by (simp add: ih Let_def frame_text_def join_bar_Cons del: stack_loop.simps(2)
            add: stack_loop.simps(2) [of FileLine nlevels i frame st b])
  qed
qed

text \<open>With every frame resolved and a drop count \<open>N\<close> between 1 and the number \<open>F\<close> of
  frames, the loop renders the first \<open>F - N + 1\<close> frames.\<close>

lemma ZMarshalStack_all_resolved:
  assumes "\<forall>f \<in> set st. FileLine (f - 1) \<noteq> None"
    and "0 < ZlogDropStack g" and "ZlogDropStack g < int (length st)"
  shows "ZMarshalStack FileLine g (Some st) =
     Some (join_bar (map (frame_text FileLine) (take (length st - nat (ZlogDropStack g) + 1) st)))"
proof -
  have k: "nat (int (length st) - ZlogDropStack g + 1) = Suc (length st - nat (ZlogDropStack g))"
    using assms(2,3) by linarith
  have ne: "take (length st - nat (ZlogDropStack g) + 1) st \<noteq> []"
    using assms(2,3) by (cases st) auto
  show ?thesis
    using assms(3) ne
    by (simp add: ZMarshalStack_def Let_def stack_loop_all_resolved [OF assms(1)] k
          del: stack_loop.simps)
qed

section \<open>The level threshold\<close>

text \<open>
  C1.  \<open>setlevel\<close> gives every integer level exactly one minimum level, the one of the
  specification's table, and it is one of Fatal, Error, Warn, Info, Debug and Trace.
  Every level at most -3 gives Fatal and every level at least 2 gives Trace.  A larger
  level never gives a less verbose logger: the number of severities emitted does not
  decrease.  The logger and the state that \<open>setlevel\<close> is called with do not matter.
\<close>

theorem setlevel_total_monotone_clamped:
  "lg_level (fst (setlevel logger L g)) = spec_threshold L
   \<and> lg_level (fst (setlevel logger L g))
       \<in> {FatalLevel, ErrorLevel, WarnLevel, InfoLevel, DebugLevel, TraceLevel}
   \<and> (L \<le> - 3 \<longrightarrow> lg_level (fst (setlevel logger L g)) = FatalLevel)
   \<and> (2 \<le> L \<longrightarrow> lg_level (fst (setlevel logger L g)) = TraceLevel)
   \<and> (L \<le> L' \<longrightarrow>
        verbosity (lg_level (fst (setlevel logger L g)))
          \<le> verbosity (lg_level (fst (setlevel logger' L' g'))))"
proof -
  have "spec_threshold L \<in> {FatalLevel, ErrorLevel, WarnLevel, InfoLevel, DebugLevel, TraceLevel}"
    by (simp add: spec_threshold_def)
  moreover have "L \<le> - 3 \<longrightarrow> spec_threshold L = FatalLevel"
    by (simp add: spec_threshold_def)
  moreover have "2 \<le> L \<longrightarrow> spec_threshold L = TraceLevel"
    by (simp add: spec_threshold_def)
  ultimately show ?thesis
    by (simp add: setlevel_level verbosity_spec_threshold_mono)
qed

theorem setlevel_total_monotone_clamped_witness:
  "lg_level (fst (setlevel (zerolog_New (RawSink Stderr)) (- 5) (initial_globals True))) = FatalLevel
   \<and> lg_level (fst (setlevel (zerolog_New (RawSink Stderr)) 7 (initial_globals True))) = TraceLevel
   \<and> (- 5 :: int) \<le> - 3 \<and> (2 :: int) \<le> 7 \<and> (- 5 :: int) \<le> 7
   \<and> verbosity (lg_level (fst (setlevel (zerolog_New (RawSink Stderr)) (- 5) (initial_globals True))))
       \<le> verbosity (lg_level (fst (setlevel (zerolog_New (RawSink Stderr)) 7 (initial_globals True))))"
  using setlevel_total_monotone_clamped
    [of "zerolog_New (RawSink Stderr)" "- 5" "initial_globals True" 7
        "zerolog_New (RawSink Stderr)" "initial_globals True"]
    setlevel_total_monotone_clamped
    [of "zerolog_New (RawSink Stderr)" "7" "initial_globals True" 7
        "zerolog_New (RawSink Stderr)" "initial_globals True"]
  by auto

section \<open>The two sinks of \<open>Tee\<close>\<close>

text \<open>
  C2, as stated, fails.  After \<open>InitL(0)\<close> on a terminal with colours, \<open>Tee\<close> with
  the format Color gives a file sink whose field names are wrapped in the cyan escape
  sequence: the file sink is not monochrome.
\<close>

theorem Tee_file_sink_colored_counterexample:
  "Format (Tee_options [zero_Options\<lparr>Format := FormatColor\<rparr>]) \<noteq> FormatJson
   \<and> map_option sink_Out
        (file_sink (fst (projr (Tee always_open ''log.txt'' [zero_Options\<lparr>Format := FormatColor\<rparr>]
                                  (InitL 0 (initial_globals True))))))
       = Some (File \<lparr>fd_name = ''log.txt'', fd_flag = 0x241\<rparr>)
   \<and> file_sink (fst (projr (Tee always_open ''log.txt'' [zero_Options\<lparr>Format := FormatColor\<rparr>]
                              (InitL 0 (initial_globals True)))))
       = Some (ConsoleSink
           \<lparr>cw_Out = File \<lparr>fd_name = ''log.txt'', fd_flag = 0x241\<rparr>, cw_NoColor = False,
            cw_TimeFormat = [], cw_FormatTimestamp = Some TsDefault,
            cw_FormatLevel = Some LevelBW, cw_FormatFieldName = Some FieldNameCyan,
            cw_FormatErrFieldName = Some ErrFieldNameRed,
            cw_FormatErrFieldValue = Some ErrFieldValueSprint\<rparr>)
   \<and> run_FieldNameFormatter FieldNameCyan (IString ''n'')
       = [CHR 0x1B] @ ''[38;5;45mn='' @ [CHR 0x1B] @ ''[0m''
   \<and> has_escape (run_FieldNameFormatter FieldNameCyan (IString ''n''))"
proof -
  have op: "always_open ''log.txt'' (Tee_flag (Tee_options [zero_Options\<lparr>Format := FormatColor\<rparr>]))"
    by (simp add: always_open_def)
  have fmt: "Format (Tee_options [zero_Options\<lparr>Format := FormatColor\<rparr>]) \<noteq> FormatBW"
    "Format (Tee_options [zero_Options\<lparr>Format := FormatColor\<rparr>]) \<noteq> FormatJson"
    by (simp_all add: Tee_options_def FormatColor_def FormatBW_def FormatJson_def)
  have flag: "Tee_flag (Tee_options [zero_Options\<lparr>Format := FormatColor\<rparr>]) = 0x241"
    by (simp add: Tee_flag_def Tee_options_def zero_Options_def O_CREATE_def O_WRONLY_def
          O_TRUNC_def)
  have st: "zlogOptions (InitL 0 (initial_globals True)) = zero_Options"
    "SupportColors (InitL 0 (initial_globals True))"
    by (simp_all add: InitL_globals zero_Options_def initial_globals_def)
  have w: "fst (zconsoleWriter zero_Options (InitL 0 (initial_globals True)))
      = \<lparr>cw_Out = Stderr, cw_NoColor = False,
            cw_TimeFormat = [], cw_FormatTimestamp = Some TsDefault,
            cw_FormatLevel = Some LevelColor, cw_FormatFieldName = Some FieldNameCyan,
            cw_FormatErrFieldName = Some ErrFieldNameRed,
            cw_FormatErrFieldValue = Some ErrFieldValueSprint\<rparr>"
    unfolding zconsoleWriter_writer using st(2)
    by (simp add: zero_Options_def getFormatter_def FormatColor_def FormatBW_def FormatUnicode_def)
  have esc: "run_FieldNameFormatter FieldNameCyan (IString ''n'')
       = [CHR 0x1B] @ ''[38;5;45mn='' @ [CHR 0x1B] @ ''[0m''"
    by (simp add: Cyan_def intro_def ResetColor_def ESC_def)
  have "has_escape (run_FieldNameFormatter FieldNameCyan (IString ''n''))"
    unfolding esc by (simp add: has_escape_def ESC_def)
  then show ?thesis
    using fmt(2) esc
      Tee_other [of always_open "''log.txt''" "[zero_Options\<lparr>Format := FormatColor\<rparr>]"
        "InitL 0 (initial_globals True)"] op fmt(1)
    by (simp add: flag st(1) w)
qed

text \<open>
  C2, amended.  For every \<open>Tee\<close> call that opens its file and whose format is not
  JSON, the file sink is a console writer on that file whose level labels are the
  monochrome ones.  When the format is Monochrome, the writer is built with colour
  support switched off, whatever the process-wide setting is: its field names are plain
  and \<open>NoColor\<close> is set.  For every other format the writer is the console's own with
  only the output and the level labels replaced, so its field names are coloured exactly
  when the console's are.  In both cases the console sink is the writer built from the
  saved options under the live colour setting, and that setting is the same after the
  call.
\<close>

theorem Tee_file_sink_monochrome_labels:
  assumes "Format (Tee_options options) \<noteq> FormatJson"
    and "can_open fname (Tee_flag (Tee_options options))"
  shows "\<exists>m g' w.
     Tee can_open fname options g = Inr (m, g')
     \<and> file_sink m = Some (ConsoleSink w)
     \<and> cw_Out w = File \<lparr>fd_name = fname, fd_flag = Tee_flag (Tee_options options)\<rparr>
     \<and> cw_FormatLevel w = Some LevelBW
     \<and> (Format (Tee_options options) = FormatBW \<longrightarrow> monochrome_writer w \<and> cw_NoColor w)
     \<and> (Format (Tee_options options) \<noteq> FormatBW \<longrightarrow>
          w = (fst (zconsoleWriter (zlogOptions g) g))
                \<lparr>cw_Out := File \<lparr>fd_name = fname, fd_flag = Tee_flag (Tee_options options)\<rparr>,
                 cw_FormatLevel := Some LevelBW\<rparr>
          \<and> (cw_FormatFieldName w = Some FieldNameCyan
               \<longleftrightarrow> (Format (zlogOptions g) = FormatColor \<or> Format (zlogOptions g) = FormatUnicode)
                    \<and> SupportColors g))
     \<and> console_sink m = Some (ConsoleSink (fst (zconsoleWriter (zlogOptions g) g)))
     \<and> SupportColors g' = SupportColors g"
proof (cases "Format (Tee_options options) = FormatBW")
  case True
  show ?thesis
    using assms(2) True Tee_BW [of can_open fname options g]
    by (simp add: monochrome_writer_def zconsoleWriter_writer zconsoleWriter_globals)
next
  case False
  show ?thesis
    using assms False Tee_other [of can_open fname options g]
    by (simp add: zconsoleWriter_writer zconsoleWriter_globals)
qed

theorem Tee_file_sink_monochrome_labels_witness:
  "Format (Tee_options []) \<noteq> FormatJson
   \<and> always_open ''log.txt'' (Tee_flag (Tee_options []))
   \<and> Format (Tee_options []) = FormatBW
   \<and> SupportColors (InitL 0 (initial_globals True))
   \<and> (\<exists>m g' w.
        Tee always_open ''log.txt'' [] (InitL 0 (initial_globals True)) = Inr (m, g')
        \<and> file_sink m = Some (ConsoleSink w)
        \<and> monochrome_writer w \<and> cw_NoColor w
        \<and> console_sink m
            = Some (ConsoleSink (fst (zconsoleWriter (zlogOptions (InitL 0 (initial_globals True)))
                                        (InitL 0 (initial_globals True)))))
        \<and> SupportColors g')"
proof -
  have a: "Format (Tee_options []) \<noteq> FormatJson"
    by (simp add: Tee_options_def FormatBW_def FormatJson_def)
  have b: "always_open ''log.txt'' (Tee_flag (Tee_options []))"
    by (simp add: always_open_def)
  have c: "Format (Tee_options []) = FormatBW"
    by (simp add: Tee_options_def)
  have d: "SupportColors (InitL 0 (initial_globals True))"
    by (simp add: InitL_globals initial_globals_def)
  show ?thesis
    using a b c d
      Tee_file_sink_monochrome_labels
        [of "[]" always_open "''log.txt''" "InitL 0 (initial_globals True)"]
    by auto
qed

section \<open>The open flags of \<open>Tee\<close>\<close>

text \<open>
  C3.  \<open>Tee\<close> hands \<open>os.OpenFile\<close> a flag word with the create flag.  When
  \<open>Overwrite\<close> is false the word has the truncate flag and not the append flag; when
  \<open>Overwrite\<close> is true it has the append flag and not the truncate flag.  \<open>Tee\<close> ends
  the process exactly when the file cannot be opened with this word, and otherwise the
  second sink of its logger writes to the file opened with it.
\<close>

theorem Tee_opens_with_truncate_or_append:
  "Tee_flag (Tee_options options) AND O_CREATE = O_CREATE
   \<and> (\<not> Overwrite (Tee_options options) \<longrightarrow>
        Tee_flag (Tee_options options) AND O_TRUNC = O_TRUNC
        \<and> Tee_flag (Tee_options options) AND O_APPEND = 0)
   \<and> (Overwrite (Tee_options options) \<longrightarrow>
        Tee_flag (Tee_options options) AND O_APPEND = O_APPEND
        \<and> Tee_flag (Tee_options options) AND O_TRUNC = 0)
   \<and> (Tee can_open fname options g = Inl FatalExit
        \<longleftrightarrow> \<not> can_open fname (Tee_flag (Tee_options options)))
   \<and> (\<forall>m g'. Tee can_open fname options g = Inr (m, g') \<longrightarrow>
        map_option sink_Out (file_sink m)
          = Some (File \<lparr>fd_name = fname, fd_flag = Tee_flag (Tee_options options)\<rparr>))"
proof -
  have "Tee can_open fname options g = Inl FatalExit
          \<longleftrightarrow> \<not> can_open fname (Tee_flag (Tee_options options))"
    by (simp add: Tee_def Let_def split_beta)
  then show ?thesis
    using Tee_flag_bits [of "Tee_options options"] Tee_file_Out [of can_open fname options g]
    by blast
qed

theorem Tee_opens_with_truncate_or_append_witness:
  "\<not> Overwrite (Tee_options [])
   \<and> Tee_flag (Tee_options []) = 0x241
   \<and> Overwrite (Tee_options [zero_Options\<lparr>Overwrite := True\<rparr>])
   \<and> Tee_flag (Tee_options [zero_Options\<lparr>Overwrite := True\<rparr>]) = 0x441
   \<and> Tee_flag (Tee_options [zero_Options\<lparr>Overwrite := True\<rparr>]) AND O_APPEND = O_APPEND
   \<and> Tee_flag (Tee_options [zero_Options\<lparr>Overwrite := True\<rparr>]) AND O_TRUNC = 0
   \<and> Tee_flag (Tee_options []) AND O_TRUNC = O_TRUNC
   \<and> Tee_flag (Tee_options []) AND O_APPEND = 0
   \<and> (\<exists>m g'. Tee always_open ''log.txt'' [] (initial_globals True) = Inr (m, g')
        \<and> map_option sink_Out (file_sink m) = Some (File \<lparr>fd_name = ''log.txt'', fd_flag = 0x241\<rparr>))"
proof -
  have a: "\<not> Overwrite (Tee_options [])"
    by (simp add: Tee_options_def zero_Options_def)
  have b: "Overwrite (Tee_options [zero_Options\<lparr>Overwrite := True\<rparr>])"
    by (simp add: Tee_options_def zero_Options_def)
  have c: "Tee_flag (Tee_options []) = 0x241"
    by (simp add: Tee_flag_def Tee_options_def zero_Options_def O_CREATE_def O_WRONLY_def
          O_TRUNC_def)
  have d: "Tee_flag (Tee_options [zero_Options\<lparr>Overwrite := True\<rparr>]) = 0x441"
    by (simp add: Tee_flag_def Tee_options_def zero_Options_def O_CREATE_def O_WRONLY_def
          O_APPEND_def)
  have e: "Tee always_open ''log.txt'' [] (initial_globals True) \<noteq> Inl FatalExit"
    using Tee_opens_with_truncate_or_append [of "[]" always_open "''log.txt''" "initial_globals True"]
    by (simp add: always_open_def)
  then obtain m g' where f: "Tee always_open ''log.txt'' [] (initial_globals True) = Inr (m, g')"
    by (cases "Tee always_open ''log.txt'' [] (initial_globals True)") (auto intro: tee_error.exhaust)
  show ?thesis
    using a b c d f
      Tee_opens_with_truncate_or_append [of "[]" always_open "''log.txt''" "initial_globals True"]
      Tee_opens_with_truncate_or_append
        [of "[zero_Options\<lparr>Overwrite := True\<rparr>]" always_open "''log.txt''" "initial_globals True"]
    by auto
qed

section \<open>The stack summary\<close>

text \<open>
  C4.  An error without frame information gives nil.  For an error with ten frames that
  all resolve and the default drop count 8, \<open>ZMarshalStack\<close> renders the first three
  frames as \<open>basename:line\<close> joined by \<open>" | "\<close>: one frame more than the two that are
  left after eight are dropped.  The loop stops when the index exceeds the number of
  frames to keep, not when it reaches it.
\<close>

theorem ZMarshalStack_ten_frames_renders_three:
  "ZMarshalStack demo_FileLine (initial_globals True) None = None
   \<and> length demo_frames = 10
   \<and> ZlogDropStack (initial_globals True) = 8
   \<and> ZMarshalStack demo_FileLine (initial_globals True) (Some demo_frames)
       = Some (join_bar (map (frame_text demo_FileLine) (take 3 demo_frames)))
   \<and> ZMarshalStack demo_FileLine (initial_globals True) (Some demo_frames)
       = Some ''main.go:101 | main.go:102 | main.go:103''
   \<and> \<not> length (take 3 demo_frames) \<le> length demo_frames - nat (ZlogDropStack (initial_globals True))"
proof -
  have a: "ZMarshalStack demo_FileLine (initial_globals True) None = None"
    by (simp add: ZMarshalStack_def)
  have b: "ZMarshalStack demo_FileLine (initial_globals True) (Some demo_frames)
       = Some ''main.go:101 | main.go:102 | main.go:103''"
    by (simp add: ZMarshalStack_def demo_FileLine_def demo_frames_def initial_globals_def
          path_Base_def Itoa_def)
  have c: "join_bar (map (frame_text demo_FileLine) (take 3 demo_frames))
       = ''main.go:101 | main.go:102 | main.go:103''"
    by (simp add: frame_text_def demo_FileLine_def demo_frames_def path_Base_def Itoa_def)
  have d: "length demo_frames = 10" "ZlogDropStack (initial_globals True) = 8"
    by (simp_all add: demo_frames_def initial_globals_def)
  show ?thesis
    using a b c d by simp
qed

section \<open>\<open>Error\<close> as a string\<close>

text \<open>
  C5, as stated, fails.  On a terminal with colours the sink through which \<open>Error\<close>
  formats is not monochrome: its options have the zero format, which is Color, so its
  level labels are the coloured ones and its field names are wrapped in the cyan escape
  sequence.
\<close>

theorem Error_sink_colored_counterexample:
  "SupportColors (initial_globals True)
   \<and> \<not> monochrome_writer (Error_sink (initial_globals True))
   \<and> cw_FormatFieldName (Error_sink (initial_globals True)) = Some FieldNameCyan
   \<and> run_FieldNameFormatter FieldNameCyan (IString ''n'')
       = [CHR 0x1B] @ ''[38;5;45mn='' @ [CHR 0x1B] @ ''[0m''
   \<and> has_escape (run_FieldNameFormatter FieldNameCyan (IString ''n''))
   \<and> cw_FormatLevel (Error_sink (initial_globals True)) = Some LevelColor
   \<and> has_escape (fst (run_LevelFormatter LevelColor True ascii_ToUpper (IString ''error'')))"
proof -
  have c: "SupportColors (initial_globals True)"
    by (simp add: initial_globals_def)
  have esc: "run_FieldNameFormatter FieldNameCyan (IString ''n'')
       = [CHR 0x1B] @ ''[38;5;45mn='' @ [CHR 0x1B] @ ''[0m''"
    by (simp add: Cyan_def intro_def ResetColor_def ESC_def)
  have h: "has_escape (run_FieldNameFormatter FieldNameCyan (IString ''n''))"
    unfolding esc by (simp add: has_escape_def ESC_def)
  have l: "has_escape (fst (run_LevelFormatter LevelColor True ascii_ToUpper (IString ''error'')))"
    by (simp add: has_escape_def Red_def intro_def)
  show ?thesis
    using c esc h l by (simp add: Error_sink_eq monochrome_writer_def)
qed

text \<open>
  C5, amended.  For every error, \<open>Error\<close> formats the message through a throwaway
  sink that writes to a buffer and suppresses the timestamp, and it returns the trimmed
  text that zerolog leaves in the buffer.  The sink is built from options whose format
  is Color.  It is monochrome when the process-wide colour flag is off: then the field
  names are plain and the level labels are the monochrome ones.  When the flag is on,
  the field names are wrapped in the cyan and red sequences.
\<close>

theorem Error_Error_sink:
  "fst (Error_Error write TrimSpace e g)
     = TrimSpace (write ((C e)\<lparr>lg_w := Single (ConsoleSink (Error_sink g))\<rparr>)
                    (snd (Error_Error write TrimSpace e g)) (Message e))
   \<and> cw_Out (Error_sink g) = Buffer
   \<and> cw_FormatTimestamp (Error_sink g) = Some TsEmpty
   \<and> run_TimestampFormatter TsEmpty now since i = []
   \<and> cw_FormatLevel (Error_sink g) = Some (getFormatter FormatColor)
   \<and> SupportColors (snd (Error_Error write TrimSpace e g)) = SupportColors g
   \<and> (\<not> SupportColors g \<longrightarrow>
        cw_FormatFieldName (Error_sink g) = Some FieldNamePlain
        \<and> cw_FormatErrFieldName (Error_sink g) = Some ErrFieldNamePlain
        \<and> run_LevelFormatter (getFormatter FormatColor) (SupportColors g) upper i
            = formatLevelBW upper i)
   \<and> (SupportColors g \<longrightarrow>
        cw_FormatFieldName (Error_sink g) = Some FieldNameCyan
        \<and> cw_FormatErrFieldName (Error_sink g) = Some ErrFieldNameRed)"
  by (simp add: Error_Error_eq Error_sink_eq zconsoleWriter_globals getFormatter_def
        FormatColor_def FormatBW_def FormatUnicode_def)

theorem Error_Error_sink_witness:
  "\<not> SupportColors (initial_globals False)
   \<and> fst (Error_Error demo_write demo_TrimSpace (demo_Error (initial_globals False))
             (initial_globals False)) = ''Test Message''
   \<and> cw_FormatTimestamp (Error_sink (initial_globals False)) = Some TsEmpty
   \<and> cw_FormatFieldName (Error_sink (initial_globals False)) = Some FieldNamePlain
   \<and> cw_FormatErrFieldName (Error_sink (initial_globals False)) = Some ErrFieldNamePlain
   \<and> run_LevelFormatter (getFormatter FormatColor) (SupportColors (initial_globals False))
        ascii_ToUpper (IString ''warn'') = (''WRN'', [])
   \<and> SupportColors (initial_globals True)
   \<and> cw_FormatFieldName (Error_sink (initial_globals True)) = Some FieldNameCyan
   \<and> cw_FormatErrFieldName (Error_sink (initial_globals True)) = Some ErrFieldNameRed"
proof -
  have a: "\<not> SupportColors (initial_globals False)" "SupportColors (initial_globals True)"
    by (simp_all add: initial_globals_def)
  have b: "demo_TrimSpace (demo_write l g' (Message (demo_Error (initial_globals False))))
             = ''Test Message''" for l g'
    by (simp add: demo_TrimSpace_def demo_write_def demo_Error_def)
  show ?thesis
    using a b
      Error_Error_sink [of demo_write demo_TrimSpace "demo_Error (initial_globals False)"
        "initial_globals False" _ _ "IString ''warn''" ascii_ToUpper]
      Error_Error_sink [of demo_write demo_TrimSpace "demo_Error (initial_globals True)"
        "initial_globals True"]
    by simp
qed

section \<open>The level labels\<close>

text \<open>
  C7.  In monochrome mode the seven severity tags trace, debug, info, warn, error,
  fatal and panic give the labels TRC, DBG, INF, WRN, ERR, FTL and PNC, byte for byte
  and without printing anything.  The formatter sees the tag only, never the message.
  None of the seven labels contains the ESC byte, so none has a colour sequence.
\<close>

theorem formatLevelBW_seven_labels:
  "formatLevelBW upper (IString ''trace'') = (''TRC'', [])
   \<and> formatLevelBW upper (IString ''debug'') = (''DBG'', [])
   \<and> formatLevelBW upper (IString ''info'') = (''INF'', [])
   \<and> formatLevelBW upper (IString ''warn'') = (''WRN'', [])
   \<and> formatLevelBW upper (IString ''error'') = (''ERR'', [])
   \<and> formatLevelBW upper (IString ''fatal'') = (''FTL'', [])
   \<and> formatLevelBW upper (IString ''panic'') = (''PNC'', [])
   \<and> \<not> has_escape (fst (formatLevelBW upper (IString ''trace'')))
   \<and> \<not> has_escape (fst (formatLevelBW upper (IString ''debug'')))
   \<and> \<not> has_escape (fst (formatLevelBW upper (IString ''info'')))
   \<and> \<not> has_escape (fst (formatLevelBW upper (IString ''warn'')))
   \<and> \<not> has_escape (fst (formatLevelBW upper (IString ''error'')))
   \<and> \<not> has_escape (fst (formatLevelBW upper (IString ''fatal'')))
   \<and> \<not> has_escape (fst (formatLevelBW upper (IString ''panic'')))
   \<and> getFormatter FormatBW = LevelBW"
  by (simp add: has_escape_def ESC_def getFormatter_def)

text \<open>
  C8, as stated, fails: the tags error and fatal are different severities with the same
  glyph.
\<close>

theorem formatLevelUnicode_shared_glyph_counterexample:
  "''error'' \<noteq> ''fatal''
   \<and> fst (formatLevelUnicode ascii_ToUpper (IString ''error''))
       = fst (formatLevelUnicode ascii_ToUpper (IString ''fatal''))"
  by simp

text \<open>
  C8, amended.  In unicode mode each of the seven severity tags has a fixed glyph.  The
  glyphs of trace, debug, info and warn differ from one another and from the cross, and
  error, fatal and panic all have the cross.
\<close>

theorem formatLevelUnicode_seven_glyphs:
  "formatLevelUnicode upper (IString ''trace'') = (glyph_trace, [])
   \<and> formatLevelUnicode upper (IString ''debug'') = (glyph_debug, [])
   \<and> formatLevelUnicode upper (IString ''info'') = (glyph_info, [])
   \<and> formatLevelUnicode upper (IString ''warn'') = (glyph_warn, [])
   \<and> formatLevelUnicode upper (IString ''error'') = (glyph_cross, [])
   \<and> formatLevelUnicode upper (IString ''fatal'') = (glyph_cross, [])
   \<and> formatLevelUnicode upper (IString ''panic'') = (glyph_cross, [])
   \<and> distinct [glyph_trace, glyph_debug, glyph_info, glyph_warn, glyph_cross]
   \<and> getFormatter FormatUnicode = LevelUnicode"
  by (simp add: glyph_trace_def glyph_debug_def glyph_info_def glyph_warn_def glyph_cross_def
        getFormatter_def FormatUnicode_def FormatBW_def)

text \<open>
  C6, as stated, fails: the empty string is none of the seven severity tags, and the
  monochrome formatter answers it with the label nolevel and prints nothing; the string
  log is none of them either, and nothing is printed for it.
\<close>

theorem formatLevel_empty_tag_counterexample:
  "[] \<notin> set severity_tags
   \<and> formatLevelBW ascii_ToUpper (IString []) = (''nolevel'', [])
   \<and> formatLevelBW ascii_ToUpper (IString [])
       \<noteq> (ascii_ToUpper [], [unexpected_level []])
   \<and> ''log'' \<notin> set severity_tags
   \<and> snd (formatLevelBW ascii_ToUpper (IString ''log'')) = []"
  by (simp add: severity_tags_def)

text \<open>
  C6, amended.  For every string that the switch has no case for (the seven severity
  tags, log and the empty string are its cases), each of the three formatters returns
  the uppercased string and prints one line, the warning with the string quoted.  The
  string log gives the label LOG and the empty string gives the label nolevel, in each of
  the three formatters, whatever the colour flag is, and nothing is printed for either.
  Every other input has a result as well: nil gives the empty label and a value that is
  not a string gives its uppercased rendering, both without a warning.
\<close>

theorem formatLevel_unknown_tag_passthrough:
  "(ll \<notin> set switch_cases \<longrightarrow>
      formatLevelBW upper (IString ll) = (upper ll, [unexpected_level ll])
      \<and> formatLevelUnicode upper (IString ll) = (upper ll, [unexpected_level ll])
      \<and> formatLevelColor colors upper (IString ll) = (upper ll, [unexpected_level ll])
      \<and> run_LevelFormatter f colors upper (IString ll) = (upper ll, [unexpected_level ll]))
   \<and> formatLevelBW upper (IString ''log'') = (''LOG'', [])
   \<and> formatLevelUnicode upper (IString ''log'') = (''LOG'', [])
   \<and> formatLevelColor colors upper (IString ''log'') = (''LOG'', [])
   \<and> run_LevelFormatter f colors upper (IString ''log'') = (''LOG'', [])
   \<and> formatLevelBW upper (IString []) = (''nolevel'', [])
   \<and> formatLevelUnicode upper (IString []) = (''nolevel'', [])
   \<and> formatLevelColor colors upper (IString []) = (''nolevel'', [])
   \<and> run_LevelFormatter f colors upper (IString []) = (''nolevel'', [])
   \<and> formatLevelBW upper INil = ([], [])
   \<and> formatLevelUnicode upper INil = ([], [])
   \<and> formatLevelColor colors upper INil = ([], [])
   \<and> run_LevelFormatter f colors upper INil = ([], [])
   \<and> formatLevelBW upper (IOther s v) = (upper s, [])
   \<and> formatLevelUnicode upper (IOther s v) = (upper s, [])
   \<and> formatLevelColor colors upper (IOther s v) = (upper s, [])
   \<and> run_LevelFormatter f colors upper (IOther s v) = (upper s, [])"
  by (cases f) (simp_all add: switch_cases_def severity_tags_def)

theorem formatLevel_unknown_tag_passthrough_witness:
  "''verbose'' \<notin> set switch_cases
   \<and> formatLevelBW ascii_ToUpper (IString ''verbose'')
       = (''VERBOSE'', [Printf (''ups, unexpeced level %q'' @ [CHR 0x0A]) ''verbose''])
   \<and> formatLevelUnicode ascii_ToUpper (IString ''verbose'')
       = (''VERBOSE'', [Printf (''ups, unexpeced level %q'' @ [CHR 0x0A]) ''verbose''])
   \<and> formatLevelColor True ascii_ToUpper (IString ''verbose'')
       = (''VERBOSE'', [Printf (''ups, unexpeced level %q'' @ [CHR 0x0A]) ''verbose''])
   \<and> formatLevelUnicode ascii_ToUpper (IString ''log'') = (''LOG'', [])
   \<and> formatLevelColor True ascii_ToUpper (IString ''log'') = (''LOG'', [])
   \<and> formatLevelUnicode ascii_ToUpper (IString []) = (''nolevel'', [])
   \<and> formatLevelColor True ascii_ToUpper (IString []) = (''nolevel'', [])"
proof -
  have a: "''verbose'' \<notin> set switch_cases"
    by (simp add: switch_cases_def severity_tags_def)
  have b: "ascii_ToUpper ''verbose'' = ''VERBOSE''"
    by code_simp
  show ?thesis
    using a b formatLevel_unknown_tag_passthrough [of "''verbose''" ascii_ToUpper True LevelBW]
    by (simp add: unexpected_level_def)
qed

section \<open>The saved options after \<open>Error\<close>\<close>

text \<open>
  C9.  \<open>Error\<close> always leaves the saved options as the time format none, the format
  Color, the level 0 and no overwrite, and it rewrites zerolog's time format and its
  names of the time, level and message fields.  A \<open>Tee\<close> call in the state that
  \<open>Error\<close> leaves, when it opens its file, takes its console sink from these options
  and not from those that \<open>New\<close> or \<open>InitL\<close> saved before.
\<close>

theorem Error_Error_clobbers_zlogOptions:
  "zlogOptions (snd (Error_Error write TrimSpace e g))
     = \<lparr>Level = 0, TimeFormat = ''none'', Format = FormatColor, Overwrite = False\<rparr>
   \<and> zerolog_TimeFieldFormat (snd (Error_Error write TrimSpace e g)) = ''none''
   \<and> zerolog_TimestampFieldName (snd (Error_Error write TrimSpace e g)) = ''_zts''
   \<and> zerolog_LevelFieldName (snd (Error_Error write TrimSpace e g)) = ''_zl''
   \<and> zerolog_MessageFieldName (snd (Error_Error write TrimSpace e g)) = ''_zm''
   \<and> (can_open fname (Tee_flag (Tee_options options)) \<longrightarrow>
        (\<exists>m g'. Tee can_open fname options (snd (Error_Error write TrimSpace e g)) = Inr (m, g')
           \<and> console_sink m
               = Some (ConsoleSink (fst (zconsoleWriter
                    \<lparr>Level = 0, TimeFormat = ''none'', Format = FormatColor, Overwrite = False\<rparr>
                    (snd (Error_Error write TrimSpace e g)))))))"
proof -
  have opts: "zlogOptions (snd (Error_Error write TrimSpace e g))
     = \<lparr>Level = 0, TimeFormat = ''none'', Format = FormatColor, Overwrite = False\<rparr>"
    by (simp add: Error_Error_eq zconsoleWriter_globals zero_Options_def FormatColor_def)
  have fields: "zerolog_TimeFieldFormat (snd (Error_Error write TrimSpace e g)) = ''none''"
    "zerolog_TimestampFieldName (snd (Error_Error write TrimSpace e g)) = ''_zts''"
    "zerolog_LevelFieldName (snd (Error_Error write TrimSpace e g)) = ''_zl''"
    "zerolog_MessageFieldName (snd (Error_Error write TrimSpace e g)) = ''_zm''"
    by (simp_all add: Error_Error_eq zconsoleWriter_globals zero_Options_def)
  have tee: "\<exists>m g'. Tee can_open fname options (snd (Error_Error write TrimSpace e g)) = Inr (m, g')
           \<and> console_sink m
               = Some (ConsoleSink (fst (zconsoleWriter
                    \<lparr>Level = 0, TimeFormat = ''none'', Format = FormatColor, Overwrite = False\<rparr>
                    (snd (Error_Error write TrimSpace e g)))))"
    if "can_open fname (Tee_flag (Tee_options options))"
    using that
      Tee_console_sink [of can_open fname options "snd (Error_Error write TrimSpace e g)"]
    unfolding opts by blast
  show ?thesis
    using opts fields tee by blast
qed

text \<open>The witness: \<open>New\<close> saves monochrome options with relative seconds, \<open>Error\<close>
  is called, and the console sink of the following \<open>Tee\<close> has the coloured labels and
  no timestamp.\<close>

theorem Error_Error_clobbers_zlogOptions_witness:
  "zlogOptions (snd (New \<lparr>Level = 1, TimeFormat = ''s'', Format = FormatBW, Overwrite = False\<rparr>
                        (initial_globals True)))
     = \<lparr>Level = 1, TimeFormat = ''s'', Format = FormatBW, Overwrite = False\<rparr>
   \<and> always_open ''log.txt'' (Tee_flag (Tee_options []))
   \<and> (\<exists>m g'. Tee always_open ''log.txt'' []
          (snd (Error_Error demo_write demo_TrimSpace
             (demo_Error (snd (New \<lparr>Level = 1, TimeFormat = ''s'', Format = FormatBW, Overwrite = False\<rparr>
                                  (initial_globals True))))
             (snd (New \<lparr>Level = 1, TimeFormat = ''s'', Format = FormatBW, Overwrite = False\<rparr>
                       (initial_globals True))))) = Inr (m, g')
        \<and> console_sink m
            = Some (ConsoleSink
                \<lparr>cw_Out = Stderr, cw_NoColor = False, cw_TimeFormat = ''none'',
                 cw_FormatTimestamp = Some TsEmpty, cw_FormatLevel = Some LevelColor,
                 cw_FormatFieldName = Some FieldNameCyan,
                 cw_FormatErrFieldName = Some ErrFieldNameRed,
                 cw_FormatErrFieldValue = Some ErrFieldValueSprint\<rparr>))"
proof -
  let ?o = "\<lparr>Level = 1, TimeFormat = ''s'', Format = FormatBW, Overwrite = False\<rparr>"
  let ?g = "snd (New ?o (initial_globals True))"
  let ?g1 = "snd (Error_Error demo_write demo_TrimSpace (demo_Error ?g) ?g)"
  have a: "zlogOptions ?g = ?o"
    by (simp add: New_eq zconsoleWriter_globals)
  have b: "always_open ''log.txt'' (Tee_flag (Tee_options []))"
    by (simp add: always_open_def)
  have c: "SupportColors ?g1"
    by (simp add: Error_Error_eq New_eq zconsoleWriter_globals initial_globals_def)
  have w: "fst (zconsoleWriter
             \<lparr>Level = 0, TimeFormat = ''none'', Format = FormatColor, Overwrite = False\<rparr> ?g1)
       = \<lparr>cw_Out = Stderr, cw_NoColor = False, cw_TimeFormat = ''none'',
                 cw_FormatTimestamp = Some TsEmpty, cw_FormatLevel = Some LevelColor,
                 cw_FormatFieldName = Some FieldNameCyan,
                 cw_FormatErrFieldName = Some ErrFieldNameRed,
                 cw_FormatErrFieldValue = Some ErrFieldValueSprint\<rparr>"
    unfolding zconsoleWriter_writer using c
    by (simp add: getFormatter_def FormatColor_def FormatBW_def FormatUnicode_def)
  show ?thesis
    using a b
      Error_Error_clobbers_zlogOptions
        [of demo_write demo_TrimSpace "demo_Error ?g" ?g always_open "''log.txt''" "[]"]
    unfolding w by blast
qed

section \<open>The level of the logger that \<open>Tee\<close> returns\<close>

text \<open>
  C10.  \<open>Tee\<close> does not look at the level of its options: with any other level in
  them it returns the same.  When it opens its file, the minimum level of its logger is
  the one that the table gives for the recorded level \<open>loglevel\<close>, which \<open>Tee\<close>
  leaves as it is.  The recorded level is 0 when the program starts, it is the level
  last handed to \<open>setlevel\<close>, by \<open>New\<close>, \<open>InitL\<close> or \<open>SetLevel\<close>, and
  \<open>zconsoleWriter\<close> and \<open>Error\<close> do not change it.
\<close>

theorem Tee_level_is_recorded_level:
  "Tee can_open fname (opts\<lparr>Level := L\<rparr> # rest) g = Tee can_open fname (opts # rest) g
   \<and> (can_open fname (Tee_flag (Tee_options options)) \<longrightarrow>
        (\<exists>m g'. Tee can_open fname options g = Inr (m, g')
           \<and> lg_level m = spec_threshold (loglevel g)
           \<and> lg_level m = lg_level (fst (setlevel m (loglevel g) g'))
           \<and> loglevel g' = loglevel g))
   \<and> loglevel (initial_globals colors) = 0
   \<and> loglevel (snd (setlevel logger L g)) = L
   \<and> loglevel (snd (New opts g)) = Level opts
   \<and> loglevel (InitL L g) = L
   \<and> loglevel (SetLevel L g) = L
   \<and> loglevel (snd (zconsoleWriter opts g)) = loglevel g
   \<and> loglevel (snd (Error_Error write TrimSpace e g)) = loglevel g"
proof -
  have same: "Tee can_open fname (opts\<lparr>Level := L\<rparr> # rest) g = Tee can_open fname (opts # rest) g"
    by (simp add: Tee_def Tee_options_def Tee_flag_def Let_def split_beta)
  have lvl: "\<exists>m g'. Tee can_open fname options g = Inr (m, g')
           \<and> lg_level m = spec_threshold (loglevel g)
           \<and> lg_level m = lg_level (fst (setlevel m (loglevel g) g'))
           \<and> loglevel g' = loglevel g"
    if "can_open fname (Tee_flag (Tee_options options))"
    using that Tee_console_sink [of can_open fname options g] by (auto simp: setlevel_level)
  have rec: "loglevel (initial_globals colors) = 0"
    "loglevel (snd (setlevel logger L g)) = L"
    "loglevel (snd (New opts g)) = Level opts"
    "loglevel (InitL L g) = L"
    "loglevel (SetLevel L g) = L"
    "loglevel (snd (zconsoleWriter opts g)) = loglevel g"
    "loglevel (snd (Error_Error write TrimSpace e g)) = loglevel g"
    by (simp_all add: initial_globals_def setlevel_eq New_eq InitL_globals SetLevel_loglevel
          zconsoleWriter_globals Error_Error_eq)
  show ?thesis
    using same lvl rec by blast
qed

text \<open>The witness: \<open>New\<close> records the level 1, and \<open>Tee\<close> with the level -3 in its
  options returns a logger at the Debug level.\<close>

theorem Tee_level_is_recorded_level_witness:
  "always_open ''log.txt'' (Tee_flag (Tee_options [zero_Options\<lparr>Level := - 3\<rparr>]))
   \<and> loglevel (snd (New (zero_Options\<lparr>Level := 1\<rparr>) (initial_globals True))) = 1
   \<and> (\<exists>m g'. Tee always_open ''log.txt'' [zero_Options\<lparr>Level := - 3\<rparr>]
                 (snd (New (zero_Options\<lparr>Level := 1\<rparr>) (initial_globals True))) = Inr (m, g')
        \<and> lg_level m = DebugLevel \<and> loglevel g' = 1)"
proof -
  let ?g = "snd (New (zero_Options\<lparr>Level := 1\<rparr>) (initial_globals True))"
  have a: "always_open ''log.txt'' (Tee_flag (Tee_options [zero_Options\<lparr>Level := - 3\<rparr>]))"
    by (simp add: always_open_def)
  have b: "loglevel ?g = 1"
    by (simp add: New_eq)
  have c: "spec_threshold 1 = DebugLevel"
    by (simp add: spec_threshold_def)
  have d: "\<exists>m g'. Tee always_open ''log.txt'' [zero_Options\<lparr>Level := - 3\<rparr>] ?g = Inr (m, g')
           \<and> lg_level m = spec_threshold (loglevel ?g)
           \<and> lg_level m = lg_level (fst (setlevel m (loglevel ?g) g'))
           \<and> loglevel g' = loglevel ?g"
    using a
      Tee_level_is_recorded_level
        [where can_open = always_open and fname = "''log.txt''" and g = ?g
           and options = "[zero_Options\<lparr>Level := - 3\<rparr>]"]
    by blast
  show ?thesis
    using a b c d by auto
qed

end
